theory Spec2Isabelle
  imports Main "HOL-Library.AList" "HOL-Library.Sublist"
begin

section \<open>Python values the service works with\<close>

text \<open>
  The exceptions that can travel through \<^verbatim>\<open>main.py\<close>. The redis classes keep their
  hierarchy: \<^verbatim>\<open>AuthenticationError\<close> is a \<^verbatim>\<open>ConnectionError\<close>, and both are a
  \<^verbatim>\<open>RedisError\<close>; every other redis failure (a \<^verbatim>\<open>ResponseError\<close>, a
  \<^verbatim>\<open>TimeoutError\<close>) is the constructor \<open>RedisError\<close>. \<open>HTTPException\<close> carries the
  status code and the detail string. \<open>OSError\<close> is any operating-system error other than
  the two that have a constructor of their own, \<open>FileNotFoundError\<close> and
  \<open>PermissionError\<close>; \<open>ValueError\<close> is any value error other than
  \<open>UnicodeDecodeError\<close>. \<open>ValidationError\<close> is the class of that name in pydantic, and
  \<open>RequestValidationError\<close> is what the framework raises for a request whose fields do
  not fit the parameters of the route.
\<close>

datatype py_exc =
    ConnectionError string
  | AuthenticationError string
  | RedisError string
  | SMTPException string
  | OSError string
  | FileNotFoundError
  | PermissionError
  | NameError string
  | TypeError string
  | ValueError string
  | UnicodeDecodeError
  | ValidationError string
  | RequestValidationError string
  | HTTPException nat string

fun is_ConnectionError :: "py_exc \<Rightarrow> bool" where
  "is_ConnectionError (ConnectionError _) = True"
| "is_ConnectionError (AuthenticationError _) = True"
| "is_ConnectionError _ = False"

fun is_RedisError :: "py_exc \<Rightarrow> bool" where
  "is_RedisError (ConnectionError _) = True"
| "is_RedisError (AuthenticationError _) = True"
| "is_RedisError (RedisError _) = True"
| "is_RedisError _ = False"

subsection \<open>Strings\<close>

text \<open>
  \<^verbatim>\<open>str.lower()\<close> and \<^verbatim>\<open>str.strip()\<close> on the ASCII range: the letters A to Z are
  mapped to a to z, and the characters Python counts as white space below 128 (tab, line
  feed, vertical tab, form feed, carriage return, the separators 0x1C to 0x1F and the
  space) are removed from both ends.
\<close>

definition lower_char :: "char \<Rightarrow> char" where
  "lower_char c =
     (case map_of (zip ''ABCDEFGHIJKLMNOPQRSTUVWXYZ'' ''abcdefghijklmnopqrstuvwxyz'') c of
        Some d \<Rightarrow> d
      | None \<Rightarrow> c)"

definition lower :: "string \<Rightarrow> string" where
  "lower s = map lower_char s"

definition isspace :: "char \<Rightarrow> bool" where
  "isspace c = (c \<in> set [CHR 0x09, CHR 0x0A, CHR 0x0B, CHR 0x0C, CHR 0x0D,
                          CHR 0x1C, CHR 0x1D, CHR 0x1E, CHR 0x1F, CHR '' ''])"

definition strip :: "string \<Rightarrow> string" where
  "strip s = rev (dropWhile isspace (rev (dropWhile isspace s)))"

text \<open>The decimal text of an integer, as an f-string or the redis client renders it.\<close>

fun digits :: "nat \<Rightarrow> string" where
  "digits n =
     (if n < 10 then [''0123456789'' ! n]
      else digits (n div 10) @ [''0123456789'' ! (n mod 10)])"

declare digits.simps [simp del]

definition str_int :: "int \<Rightarrow> string" where
  "str_int i = (if i < 0 then CHR ''-'' # digits (nat (- i)) else digits (nat i))"

text \<open>
  \<^verbatim>\<open>s.replace(old, new)\<close>: the occurrences of \<open>old\<close> are found from the left and do
  not overlap. With an empty \<open>old\<close> Python puts \<open>new\<close> before every character and at
  the end.
\<close>

function replace :: "string \<Rightarrow> string \<Rightarrow> string \<Rightarrow> string" where
  "replace old new s =
     (if old = [] then new @ concat (map (\<lambda>c. c # new) s)
      else if s = [] then []
      else if prefix old s then new @ replace old new (drop (length old) s)
      else hd s # replace old new (tl s))"
  by pat_completeness auto
termination
  by (relation "measure (\<lambda>(old, new, s). length s)") (auto simp: neq_Nil_conv)

declare replace.simps [simp del]

text \<open>\<^verbatim>\<open>d.get(key)\<close> and \<^verbatim>\<open>d.get(key, default)\<close> on a dictionary of strings.\<close>

definition dict_get :: "(string \<times> string) list \<Rightarrow> string \<Rightarrow> string option" where
  "dict_get d k = map_of d k"

definition dict_get_default :: "(string \<times> string) list \<Rightarrow> string \<Rightarrow> string \<Rightarrow> string" where
  "dict_get_default d k dflt = (case map_of d k of Some v \<Rightarrow> v | None \<Rightarrow> dflt)"

section \<open>The key-value store\<close>

text \<open>
  A redis database: each key holds a string or a hash. The only string key the service
  writes is the counter \<^verbatim>\<open>users:count\<close>, written by \<^verbatim>\<open>INCR\<close> alone, so a string
  value is the integer it spells. A command on a key of the other type fails with the
  server's \<^verbatim>\<open>WRONGTYPE\<close> reply, which the client raises as a \<^verbatim>\<open>ResponseError\<close>.
  The database is an association list with one entry per key; \<^verbatim>\<open>SCAN\<close> walks it from
  the front, each key once.
\<close>

type_synonym hash = "(string \<times> string) list"

datatype rval = RInt int | RHash hash

type_synonym redis = "(string \<times> rval) list"

definition WRONGTYPE :: py_exc where
  "WRONGTYPE = RedisError ''WRONGTYPE Operation against a key holding the wrong kind of value''"

definition hgetall :: "redis \<Rightarrow> string \<Rightarrow> py_exc + hash" where
  "hgetall db key =
     (case map_of db key of
        None \<Rightarrow> Inr []
      | Some (RHash h) \<Rightarrow> Inr h
      | Some (RInt _) \<Rightarrow> Inl WRONGTYPE)"

definition hexists :: "redis \<Rightarrow> string \<Rightarrow> string \<Rightarrow> py_exc + bool" where
  "hexists db key field =
     (case map_of db key of
        None \<Rightarrow> Inr False
      | Some (RHash h) \<Rightarrow> Inr (map_of h field \<noteq> None)
      | Some (RInt _) \<Rightarrow> Inl WRONGTYPE)"

text \<open>\<^verbatim>\<open>HSET key field value [field value ...]\<close>: the fields given are set, the others stay.\<close>

definition hset :: "redis \<Rightarrow> string \<Rightarrow> (string \<times> string) list \<Rightarrow> py_exc + redis" where
  "hset db key mapping =
     (case map_of db key of
        None \<Rightarrow> Inr (AList.update key (RHash (fold (\<lambda>(f, v). AList.update f v) mapping [])) db)
      | Some (RHash h) \<Rightarrow>
          Inr (AList.update key (RHash (fold (\<lambda>(f, v). AList.update f v) mapping h)) db)
      | Some (RInt _) \<Rightarrow> Inl WRONGTYPE)"

text \<open>\<^verbatim>\<open>INCR\<close>: a missing key counts from 0; the value is a signed 64-bit integer.\<close>

definition incr :: "redis \<Rightarrow> string \<Rightarrow> py_exc + (int \<times> redis)" where
  "incr db key =
     (case map_of db key of
        None \<Rightarrow> Inr (1, AList.update key (RInt 1) db)
      | Some (RInt n) \<Rightarrow>
          (if n \<ge> 2 ^ 63 - 1 then Inl (RedisError ''ERR increment or decrement would overflow'')
           else Inr (n + 1, AList.update key (RInt (n + 1)) db))
      | Some (RHash _) \<Rightarrow> Inl WRONGTYPE)"

text \<open>\<^verbatim>\<open>scan_iter("user:*")\<close>: the keys that begin with the text before the star.\<close>

definition scan_iter :: "redis \<Rightarrow> string \<Rightarrow> string list" where
  "scan_iter db pfx = filter (prefix pfx) (map fst db)"

section \<open>Connecting to the store\<close>

text \<open>
  What one call of \<^verbatim>\<open>redis_conn.ping()\<close> does: it returns a truth value (whether the
  server's reply was \<^verbatim>\<open>PONG\<close>) or it raises. The environment gives the outcome of the
  n-th call.
\<close>

datatype ping_result = Returns bool | Raises py_exc

text \<open>
  The loop of \<^verbatim>\<open>get_redis_with_retry\<close>. Besides the local variable \<open>retries\<close> the
  model counts the calls of \<^verbatim>\<open>ping\<close> made so far and lists the delays slept, and gives
  both back with the result. The loop need not end, so the result is an option: \<open>None\<close>
  is a call that never returns.
\<close>

partial_function (option) retry_loop ::
  "(nat \<Rightarrow> ping_result) \<Rightarrow> nat \<Rightarrow> nat \<Rightarrow> nat \<Rightarrow> nat \<Rightarrow> nat list
     \<Rightarrow> ((py_exc + unit) \<times> nat \<times> nat list) option"
where
  "retry_loop ping max_retries delay attempts retries sleeps =
     (if retries < max_retries then
        (case ping attempts of
           Returns ok \<Rightarrow>
             if ok then Some (Inr (), Suc attempts, sleeps)
             else retry_loop ping max_retries delay (Suc attempts) retries sleeps
         | Raises e \<Rightarrow>
             if is_ConnectionError e then
               retry_loop ping max_retries delay (Suc attempts) (Suc retries)
                 (if Suc retries < max_retries then sleeps @ [delay] else sleeps)
             else Some (Inl e, Suc attempts, sleeps))
      else Some (Inl (ConnectionError ''Max retries reached. Could not connect to Redis.''),
                 attempts, sleeps))"

declare retry_loop.simps [code]

definition get_redis_with_retry ::
  "(nat \<Rightarrow> ping_result) \<Rightarrow> nat \<Rightarrow> nat \<Rightarrow> ((py_exc + unit) \<times> nat \<times> nat list) option" where
  "get_redis_with_retry ping max_retries delay = retry_loop ping max_retries delay 0 0 []"

text \<open>The \<^verbatim>\<open>except\<close> clauses of \<^verbatim>\<open>get_redis\<close>, in their order.\<close>

fun get_redis_except :: "py_exc \<Rightarrow> py_exc" where
  "get_redis_except (AuthenticationError _) =
     HTTPException 500 ''Database authentication failed. Please check Redis credentials.''"
| "get_redis_except (ConnectionError _) =
     HTTPException 500 ''Database connection failed. Please check Redis credentials.''"
| "get_redis_except (RedisError _) = HTTPException 500 ''Database operation failed''"
| "get_redis_except e = e"

text \<open>
  \<^verbatim>\<open>get_redis\<close> calls \<^verbatim>\<open>get_redis_with_retry()\<close> with its defaults, 3 retries and a
  delay of 1 second. \<open>Inr ()\<close> stands for the connection handed to the route.
\<close>

definition get_redis :: "(nat \<Rightarrow> ping_result) \<Rightarrow> (py_exc + unit) option" where
  "get_redis ping =
     (case get_redis_with_retry ping 3 1 of
        None \<Rightarrow> None
      | Some (Inl e, _, _) \<Rightarrow> Some (Inl (get_redis_except e))
      | Some (Inr c, _, _) \<Rightarrow> Some (Inr c))"

section \<open>Sending mail\<close>

record config =
  EmailStr_validate :: "string \<Rightarrow> py_exc + unit"
  checkpw :: "string \<Rightarrow> string \<Rightarrow> py_exc + bool"
  SMTP_SERVER :: string
  SMTP_PORT :: nat
  SMTP_USER :: string
  SMTP_PASSWORD :: string

text \<open>
  \<open>EmailStr_validate\<close> is the call \<^verbatim>\<open>EmailStr.validate(email)\<close> and \<open>checkpw\<close> the call
  \<^verbatim>\<open>bcrypt.checkpw(password, hashed)\<close>; both libraries are outside the repository, and
  either call may raise instead of returning. The other fields are read from the process
  environment at start.
\<close>

record email_message =
  Subject :: string
  From :: string
  To :: "string option"
  content :: string

datatype smtp_event =
    Connect string nat
  | Starttls
  | Login string string
  | Send_message email_message
  | Quit

datatype smtp_result = Done | Fails py_exc

record smtp_server =
  on_connect :: smtp_result
  on_starttls :: smtp_result
  on_login :: smtp_result
  on_send_message :: smtp_result

fun smtp_reply :: "smtp_server \<Rightarrow> smtp_event \<Rightarrow> smtp_result" where
  "smtp_reply srv (Connect _ _) = on_connect srv"
| "smtp_reply srv Starttls = on_starttls srv"
| "smtp_reply srv (Login _ _) = on_login srv"
| "smtp_reply srv (Send_message _) = on_send_message srv"
| "smtp_reply srv Quit = Done"

text \<open>The statements inside the \<^verbatim>\<open>with\<close> block: the first one that raises ends the block.\<close>

fun smtp_commands :: "smtp_server \<Rightarrow> smtp_event list \<Rightarrow> (py_exc + unit) \<times> smtp_event list" where
  "smtp_commands srv [] = (Inr (), [])"
| "smtp_commands srv (c # cs) =
     (case smtp_reply srv c of
        Fails e \<Rightarrow> (Inl e, [c])
      | Done \<Rightarrow> (case smtp_commands srv cs of (r, tr) \<Rightarrow> (r, c # tr)))"

text \<open>
  \<^verbatim>\<open>with smtplib.SMTP(host, port) as server\<close>: the constructor connects; when the block
  is left, by its end or by an exception, the session is closed with \<^verbatim>\<open>QUIT\<close>.
\<close>

definition with_SMTP ::
  "smtp_server \<Rightarrow> string \<Rightarrow> nat \<Rightarrow> smtp_event list \<Rightarrow> (py_exc + unit) \<times> smtp_event list" where
  "with_SMTP srv host port block =
     (case on_connect srv of
        Fails e \<Rightarrow> (Inl e, [Connect host port])
      | Done \<Rightarrow> (case smtp_commands srv block of (r, tr) \<Rightarrow> (r, Connect host port # tr @ [Quit])))"

text \<open>
  The names that \<^verbatim>\<open>main.py\<close> binds at module level, by its imports, assignments, class
  and function definitions. A name a function body uses is looked up here when the body
  runs; one that is neither here nor a builtin raises \<^verbatim>\<open>NameError\<close>.
\<close>

definition module_globals :: "string list" where
  "module_globals =
     [''os'', ''re'', ''logging'', ''redis'', ''smtplib'', ''bcrypt'', ''time'', ''datetime'',
      ''FastAPI'', ''Request'', ''Form'', ''HTTPException'', ''Depends'', ''status'',
      ''HTMLResponse'', ''RedirectResponse'', ''StaticFiles'', ''Jinja2Templates'',
      ''EmailStr'', ''BaseModel'', ''ValidationError'', ''Optional'', ''SessionMiddleware'',
      ''logger'', ''app'', ''templates'',
      ''REDIS_URL'', ''REDIS_PASSWORD'', ''ADMIN_USERNAME'', ''ADMIN_PASSWORD'',
      ''SMTP_SERVER'', ''SMTP_PORT'', ''SMTP_USER'', ''SMTP_PASSWORD'',
      ''redis_pool'', ''redis_conn'', ''UserRegistration'',
      ''get_redis_with_retry'', ''get_redis'', ''validate_email'', ''send_email'',
      ''initialize_admin_account'', ''verify_admin'', ''startup_event'',
      ''registration_form'', ''register_user'', ''admin_login_form'', ''admin_login'',
      ''admin_panel'', ''broadcast_message'', ''view_logs'', ''success_page'',
      ''admin_logout'']"

text \<open>
  \<^verbatim>\<open>send_email\<close>. Its first statement calls \<^verbatim>\<open>EmailMessage()\<close>, so that name is
  looked up before anything else happens. The result comes with the SMTP commands issued.
\<close>

definition send_email ::
  "config \<Rightarrow> smtp_server \<Rightarrow> string option \<Rightarrow> string \<Rightarrow> string
     \<Rightarrow> (py_exc + unit) \<times> smtp_event list" where
  "send_email cfg srv to subject body =
     (if ''EmailMessage'' \<notin> set module_globals then (Inl (NameError ''EmailMessage''), [])
      else
        let msg = \<lparr>Subject = subject, From = SMTP_USER cfg, To = to, content = body\<rparr> in
        (case with_SMTP srv (SMTP_SERVER cfg) (SMTP_PORT cfg)
                [Starttls, Login (SMTP_USER cfg) (SMTP_PASSWORD cfg), Send_message msg] of
           (Inl (SMTPException m), tr) \<Rightarrow>
             (Inl (HTTPException 500 (''Email sending failed: '' @ m)), tr)
         | (r, tr) \<Rightarrow> (r, tr)))"

section \<open>The routes\<close>

text \<open>
  What a route gives back: a rendered template (its name, the context entries besides the
  request, the status code), a redirect, or an exception that leaves the handler. An
  \<open>HTTPException\<close> is answered with its own status code, a \<open>RequestValidationError\<close>
  with 422, any other exception with 500.
\<close>

datatype response =
    TemplateResponse string "(string \<times> string) list" nat
  | RedirectResponse string nat
  | Raised py_exc

fun status_code :: "response \<Rightarrow> nat" where
  "status_code (TemplateResponse _ _ code) = code"
| "status_code (RedirectResponse _ code) = code"
| "status_code (Raised (HTTPException code _)) = code"
| "status_code (Raised (RequestValidationError _)) = 422"
| "status_code (Raised _) = 500"

text \<open>
  The session is the dictionary kept in the signed cookie; the service stores one entry
  in it, \<^verbatim>\<open>admin_logged_in\<close>. \<open>truthy\<close> is Python's truth test on the value of
  \<^verbatim>\<open>session.get(key)\<close>.
\<close>

type_synonym session = "string \<rightharpoonup> bool"

definition truthy :: "bool option \<Rightarrow> bool" where
  "truthy v = (case v of None \<Rightarrow> False | Some b \<Rightarrow> b)"

text \<open>
  \<^verbatim>\<open>validate_email\<close>: true when the library call returns, false when it raises
  \<^verbatim>\<open>ValidationError\<close>; any other exception is not caught.
\<close>

definition validate_email :: "config \<Rightarrow> string \<Rightarrow> py_exc + bool" where
  "validate_email cfg email =
     (case EmailStr_validate cfg email of
        Inr _ \<Rightarrow> Inr True
      | Inl (ValidationError _) \<Rightarrow> Inr False
      | Inl e \<Rightarrow> Inl e)"

text \<open>
  \<^verbatim>\<open>register_user\<close>. The whole body is in a \<^verbatim>\<open>try\<close> whose only handler is for
  \<^verbatim>\<open>redis.RedisError\<close>.
\<close>

definition register_user ::
  "config \<Rightarrow> string \<Rightarrow> string \<Rightarrow> redis \<Rightarrow> response \<times> redis" where
  "register_user cfg name email db =
     (case validate_email cfg email of
        Inl e \<Rightarrow>
          (if is_RedisError e then Raised (HTTPException 500 ''Database operation failed'')
           else Raised e, db)
      | Inr False \<Rightarrow>
          (TemplateResponse ''register.html'' [(''error'', ''Invalid email format'')] 400, db)
      | Inr True \<Rightarrow>
        (case hexists db ''users:emails'' email of
           Inl e \<Rightarrow> (Raised (HTTPException 500 ''Database operation failed''), db)
         | Inr True \<Rightarrow>
             (TemplateResponse ''register.html'' [(''error'', ''Email already registered'')] 400, db)
         | Inr False \<Rightarrow>
             (case incr db ''users:count'' of
                Inl e \<Rightarrow> (Raised (HTTPException 500 ''Database operation failed''), db)
              | Inr (user_id, db1) \<Rightarrow>
                  let user_key = ''user:'' @ str_int user_id in
                  (case hset db1 user_key
                          [(''name'', strip name),
                           (''email'', strip (lower email)),
                           (''id'', str_int user_id)] of
                     Inl e \<Rightarrow> (Raised (HTTPException 500 ''Database operation failed''), db1)
                   | Inr db2 \<Rightarrow>
                       (case hset db2 ''users:emails''
                               [(strip (lower email), str_int user_id)] of
                          Inl e \<Rightarrow>
                            (Raised (HTTPException 500 ''Database operation failed''), db2)
                        | Inr db3 \<Rightarrow> (RedirectResponse ''/success'' 303, db3))))))"

definition verify_admin :: "config \<Rightarrow> string \<Rightarrow> string \<Rightarrow> redis \<Rightarrow> py_exc + bool" where
  "verify_admin cfg username password db =
     (case hgetall db ''admin:account'' of
        Inl e \<Rightarrow> Inl e
      | Inr admin_data \<Rightarrow>
          if admin_data = [] then Inr False
          else
            let stored_user = dict_get_default admin_data ''username'' [];
                stored_pw = dict_get_default admin_data ''password'' []
            in if username \<noteq> stored_user then Inr False
               else checkpw cfg password stored_pw)"

definition admin_login ::
  "config \<Rightarrow> session \<Rightarrow> string \<Rightarrow> string \<Rightarrow> redis \<Rightarrow> response \<times> session" where
  "admin_login cfg sess username password db =
     (case verify_admin cfg username password db of
        Inl e \<Rightarrow> (Raised e, sess)
      | Inr True \<Rightarrow> (RedirectResponse ''/admin'' 303, sess(''admin_logged_in'' \<mapsto> True))
      | Inr False \<Rightarrow>
          (TemplateResponse ''admin_login.html'' [(''error'', ''Invalid credentials'')] 401, sess))"

definition admin_panel :: "session \<Rightarrow> response" where
  "admin_panel sess =
     (if \<not> truthy (sess ''admin_logged_in'') then RedirectResponse ''/admin/login'' 303
      else TemplateResponse ''admin.html'' [] 200)"

text \<open>The first loop of \<^verbatim>\<open>broadcast_message\<close>: one dictionary per key of the scan.\<close>

fun collect_users ::
  "redis \<Rightarrow> string list \<Rightarrow> py_exc + (string option \<times> string option) list" where
  "collect_users db [] = Inr []"
| "collect_users db (key # keys) =
     (case hgetall db key of
        Inl e \<Rightarrow> Inl e
      | Inr user \<Rightarrow>
          (case collect_users db keys of
             Inl e \<Rightarrow> Inl e
           | Inr users \<Rightarrow> Inr ((dict_get user ''name'', dict_get user ''email'') # users)))"

text \<open>
  The second loop: the message is personalised, then sent; the first exception ends the
  loop. \<^verbatim>\<open>str.replace\<close> with \<^verbatim>\<open>None\<close> for the new text raises \<^verbatim>\<open>TypeError\<close>.
\<close>

fun send_all ::
  "config \<Rightarrow> smtp_server \<Rightarrow> string \<Rightarrow> (string option \<times> string option) list
     \<Rightarrow> (py_exc + unit) \<times> smtp_event list" where
  "send_all cfg srv message [] = (Inr (), [])"
| "send_all cfg srv message ((name, email) # users) =
     (case name of
        None \<Rightarrow> (Inl (TypeError ''replace() argument 2 must be str, not None''), [])
      | Some n \<Rightarrow>
          let personalized_message = replace ''{{Student_name}}'' n message in
          (case send_email cfg srv email ''New Announcement'' personalized_message of
             (Inl e, tr) \<Rightarrow> (Inl e, tr)
           | (Inr _, tr) \<Rightarrow>
               (case send_all cfg srv message users of (r, tr') \<Rightarrow> (r, tr @ tr'))))"

definition broadcast_message ::
  "config \<Rightarrow> smtp_server \<Rightarrow> session \<Rightarrow> string \<Rightarrow> redis \<Rightarrow> response \<times> smtp_event list" where
  "broadcast_message cfg srv sess message db =
     (if \<not> truthy (sess ''admin_logged_in'') then (RedirectResponse ''/admin/login'' 303, [])
      else
        (case collect_users db (scan_iter db ''user:'') of
           Inl e \<Rightarrow>
             (if is_RedisError e then Raised (HTTPException 500 ''Failed to process broadcast'')
              else Raised e, [])
         | Inr users \<Rightarrow>
             (case send_all cfg srv message users of
                (Inl e, tr) \<Rightarrow>
                  (if is_RedisError e
                   then Raised (HTTPException 500 ''Failed to process broadcast'')
                   else Raised e, tr)
              | (Inr _, tr) \<Rightarrow>
                  (TemplateResponse ''admin.html''
                     [(''success'', ''Message broadcasted successfully'')] 200, tr))))"

text \<open>
  \<^verbatim>\<open>view_logs\<close>: \<open>logs_txt\<close> is what opening \<^verbatim>\<open>logs.txt\<close> and reading it does when
  the request arrives: it gives the text of the file, or it raises. The handler catches
  \<^verbatim>\<open>FileNotFoundError\<close> and nothing else.
\<close>

definition view_logs :: "session \<Rightarrow> py_exc + string \<Rightarrow> response" where
  "view_logs sess logs_txt =
     (if \<not> truthy (sess ''admin_logged_in'') then RedirectResponse ''/admin/login'' 303
      else
        (case logs_txt of
           Inr logs \<Rightarrow> TemplateResponse ''logs.html'' [(''logs'', logs)] 200
         | Inl FileNotFoundError \<Rightarrow> Raised (HTTPException 404 ''Logs not available'')
         | Inl e \<Rightarrow> Raised e))"

text \<open>\<^verbatim>\<open>admin_logout\<close>: \<^verbatim>\<open>request.session.clear()\<close>, then the redirect.\<close>

definition admin_logout :: "session \<Rightarrow> response \<times> session" where
  "admin_logout sess = (RedirectResponse ''/admin/login'' 303, Map.empty)"

section \<open>The service as a state machine\<close>

text \<open>
  The state between requests: the database, the session of the client, and the SMTP
  commands issued so far. Each request comes with what the outside world does while it is
  served: the outcomes of \<^verbatim>\<open>ping\<close>, the behaviour of the SMTP server, the log file.
\<close>

record world =
  w_db :: redis
  w_session :: session
  w_smtp :: "smtp_event list"

record env =
  ping :: "nat \<Rightarrow> ping_result"
  smtp :: smtp_server
  logs_file :: "py_exc + string"

text \<open>
  The requests, one constructor per route. A form field of a \<^verbatim>\<open>POST\<close> is the text
  submitted, or \<open>None\<close> when the request has no such field.
\<close>

datatype request =
    Registration_form
  | Register_user "string option" "string option"
  | Admin_login_form
  | Admin_login "string option" "string option"
  | Admin_panel
  | Broadcast_message "string option"
  | View_logs
  | Success_page
  | Admin_logout

text \<open>
  A parameter declared \<^verbatim>\<open>Form(...)\<close> is required: the framework takes a field that is
  missing or empty as not given, and then answers 422 without calling the route.
\<close>

definition Form :: "string option \<Rightarrow> string option" where
  "Form v = (case v of None \<Rightarrow> None | Some s \<Rightarrow> if s = [] then None else Some s)"

definition field_required :: response where
  "field_required = Raised (RequestValidationError ''field required'')"

text \<open>
  \<^verbatim>\<open>db = Depends(get_redis)\<close>: the dependency is resolved first, before the form fields
  are checked and before the body of the route runs. When it raises, its exception is the
  response; when it never returns, there is no response (\<open>None\<close>). An exception that
  leaves the body of the route arrives at the \<^verbatim>\<open>yield\<close> of \<^verbatim>\<open>get_redis\<close>, inside
  its \<^verbatim>\<open>try\<close>, and meets the same \<^verbatim>\<open>except\<close> clauses.
\<close>

definition Depends_get_redis ::
  "env \<Rightarrow> world \<Rightarrow> (response \<times> world) \<Rightarrow> (response \<times> world) option" where
  "Depends_get_redis e w body =
     (case get_redis (ping e) of
        None \<Rightarrow> None
      | Some (Inl exc) \<Rightarrow> Some (Raised exc, w)
      | Some (Inr _) \<Rightarrow>
          (case body of
             (Raised exc, w') \<Rightarrow> Some (Raised (get_redis_except exc), w')
           | (resp, w') \<Rightarrow> Some (resp, w')))"

fun handle :: "config \<Rightarrow> world \<Rightarrow> env \<times> request \<Rightarrow> (response \<times> world) option" where
  "handle cfg w (e, Registration_form) = Some (TemplateResponse ''register.html'' [] 200, w)"
| "handle cfg w (e, Register_user name email) =
     Depends_get_redis e w
       (case (Form name, Form email) of
          (Some n, Some m) \<Rightarrow>
            (case register_user cfg n m (w_db w) of
               (resp, db') \<Rightarrow> (resp, w\<lparr>w_db := db'\<rparr>))
        | _ \<Rightarrow> (field_required, w))"
| "handle cfg w (e, Admin_login_form) = Some (TemplateResponse ''admin_login.html'' [] 200, w)"
| "handle cfg w (e, Admin_login username password) =
     Depends_get_redis e w
       (case (Form username, Form password) of
          (Some u, Some p) \<Rightarrow>
            (case admin_login cfg (w_session w) u p (w_db w) of
               (resp, sess') \<Rightarrow> (resp, w\<lparr>w_session := sess'\<rparr>))
        | _ \<Rightarrow> (field_required, w))"
| "handle cfg w (e, Admin_panel) = Some (admin_panel (w_session w), w)"
| "handle cfg w (e, Broadcast_message message) =
     Depends_get_redis e w
       (case Form message of
          Some m \<Rightarrow>
            (case broadcast_message cfg (smtp e) (w_session w) m (w_db w) of
               (resp, tr) \<Rightarrow> (resp, w\<lparr>w_smtp := w_smtp w @ tr\<rparr>))
        | None \<Rightarrow> (field_required, w))"
| "handle cfg w (e, View_logs) = Some (view_logs (w_session w) (logs_file e), w)"
| "handle cfg w (e, Success_page) = Some (TemplateResponse ''success.html'' [] 200, w)"
| "handle cfg w (e, Admin_logout) =
     (case admin_logout (w_session w) of (resp, sess') \<Rightarrow> Some (resp, w\<lparr>w_session := sess'\<rparr>))"

text \<open>The state after a request; a request that is never answered changes nothing.\<close>

definition after :: "config \<Rightarrow> world \<Rightarrow> env \<times> request \<Rightarrow> world" where
  "after cfg w er = (case handle cfg w er of None \<Rightarrow> w | Some (_, w') \<Rightarrow> w')"

definition run :: "config \<Rightarrow> world \<Rightarrow> (env \<times> request) list \<Rightarrow> world" where
  "run cfg w ers = foldl (after cfg) w ers"

text \<open>
  A login request that reaches the body of \<^verbatim>\<open>admin_login\<close> (the store dependency
  gives a connection, both fields are given) and whose credentials pass
  \<^verbatim>\<open>verify_admin\<close> in the state it meets.
\<close>

fun verified_login :: "config \<Rightarrow> world \<Rightarrow> env \<times> request \<Rightarrow> bool" where
  "verified_login cfg w (e, Admin_login username password) =
     (case (get_redis (ping e), Form username, Form password) of
        (Some (Inr _), Some u, Some p) \<Rightarrow> verify_admin cfg u p (w_db w) = Inr True
      | _ \<Rightarrow> False)"
| "verified_login cfg w (e, _) = False"

fun no_verified_login :: "config \<Rightarrow> world \<Rightarrow> (env \<times> request) list \<Rightarrow> bool" where
  "no_verified_login cfg w [] = True"
| "no_verified_login cfg w (er # ers) =
     (\<not> verified_login cfg w er \<and> no_verified_login cfg (after cfg w er) ers)"

section \<open>Concrete environments\<close>

text \<open>
  Stand-ins for the two libraries where a statement is evaluated on concrete requests.
  An address with an at sign is accepted; for any other text the validator raises the
  value error that pydantic's \<^verbatim>\<open>EmailStr.validate\<close> raises. The password check
  follows \<^verbatim>\<open>bcrypt.checkpw\<close> on the stored texts used below: a text that is not of the
  form of a bcrypt hash raises \<^verbatim>\<open>ValueError\<close>, and \<open>securepassword_hash\<close> is a
  bcrypt hash of the password \<^verbatim>\<open>securepassword\<close> (cost 12).
\<close>

definition example_EmailStr_validate :: "string \<Rightarrow> py_exc + unit" where
  "example_EmailStr_validate email =
     (if CHR ''@'' \<in> set email then Inr ()
      else Inl (ValueError ''value is not a valid email address''))"

definition securepassword_hash :: string where
  "securepassword_hash = ''$2b$12$abcdefghijklmnopqrstuusAuol9gqfrRL8IZpki0Qga.hJBVmkWq''"

definition example_checkpw :: "string \<Rightarrow> string \<Rightarrow> py_exc + bool" where
  "example_checkpw password hashed =
     (if length hashed = 60 \<and> prefix ''$2b$12$'' hashed
      then Inr (password = ''securepassword'' \<and> hashed = securepassword_hash)
      else Inl (ValueError ''Invalid salt''))"

definition example_config :: config where
  "example_config =
     \<lparr>EmailStr_validate = example_EmailStr_validate,
      checkpw = example_checkpw,
      SMTP_SERVER = ''smtp.example.com'',
      SMTP_PORT = 587,
      SMTP_USER = ''user@example.com'',
      SMTP_PASSWORD = ''smtppassword''\<rparr>"

definition store_up :: "nat \<Rightarrow> ping_result" where
  "store_up n = Returns True"

definition store_down :: "nat \<Rightarrow> ping_result" where
  "store_down n = Raises (ConnectionError ''Connection refused'')"

definition never_pong :: "nat \<Rightarrow> ping_result" where
  "never_pong n = Returns False"

definition smtp_ok :: smtp_server where
  "smtp_ok = \<lparr>on_connect = Done, on_starttls = Done, on_login = Done, on_send_message = Done\<rparr>"

text \<open>
  Four environments: the store answers and the log file can be read; the store refuses
  the connection and there is no log file; the store never answers \<^verbatim>\<open>PONG\<close>; the
  store answers and the log file exists but may not be read.
\<close>

definition env_up :: env where
  "env_up = \<lparr>ping = store_up, smtp = smtp_ok, logs_file = Inr ''INFO - Admin logged in''\<rparr>"

definition env_down :: env where
  "env_down = \<lparr>ping = store_down, smtp = smtp_ok, logs_file = Inl FileNotFoundError\<rparr>"


definition env_unreadable :: env where
  "env_unreadable = \<lparr>ping = store_up, smtp = smtp_ok, logs_file = Inl PermissionError\<rparr>"

definition empty_world :: world where
  "empty_world = \<lparr>w_db = [], w_session = Map.empty, w_smtp = []\<rparr>"

text \<open>
  A store with the administrator account as \<^verbatim>\<open>initialize_admin_account\<close> writes it,
  and one whose account holds the password itself where the hash should be.
\<close>

definition admin_db :: redis where
  "admin_db =
     [(''admin:account'', RHash [(''username'', ''admin''), (''password'', securepassword_hash)])]"


definition admin_world :: world where
  "admin_world = \<lparr>w_db = admin_db, w_session = Map.empty, w_smtp = []\<rparr>"

text \<open>
  The database after \<^verbatim>\<open>a@b.com\<close> was registered for Ann in an empty store, the one
  after Ann and Bo registered two different addresses, the session of a client who has
  not logged in, and the session of an administrator who has, alone and in a state.
\<close>

definition ann_db :: redis where
  "ann_db =
     [(''users:count'', RInt 1),
      (''user:1'', RHash [(''name'', ''Ann''), (''email'', ''a@b.com''), (''id'', ''1'')]),
      (''users:emails'', RHash [(''a@b.com'', ''1'')])]"

definition ann_bo_db :: redis where
  "ann_bo_db =
     [(''users:count'', RInt 2),
      (''user:1'',
       RHash [(''name'', ''Ann''), (''email'', ''ann@example.com''), (''id'', ''1'')]),
      (''users:emails'', RHash [(''ann@example.com'', ''1''), (''bo@example.com'', ''2'')]),
      (''user:2'',
       RHash [(''name'', ''Bo''), (''email'', ''bo@example.com''), (''id'', ''2'')])]"


definition admin_session :: session where
  "admin_session = [''admin_logged_in'' \<mapsto> True]"

definition logged_in_world :: world where
  "logged_in_world = \<lparr>w_db = admin_db, w_session = admin_session, w_smtp = []\<rparr>"

section \<open>The connection loop\<close>

text \<open>
  When the loop returns from a state in which it still may retry, some call of
  \<^verbatim>\<open>ping\<close> did something other than return a false value: a false reply sends the
  loop round again with \<open>retries\<close> as it was.
\<close>

lemma retry_loop_Some_pong:
  assumes "retry_loop pg m d a r s = Some y"
  shows "r < m \<longrightarrow> (\<exists>n. pg n \<noteq> Returns False)"
proof (induction rule: retry_loop.raw_induct [OF _ assms])
  case (1 loop pg m d a r s y)
  show ?case
  proof (cases "pg a = Returns False")
    case True
    show ?thesis
    proof
      assume "r < m"
      with True "1.hyps" have "loop pg m d (Suc a) r s = Some y"
        by simp
      from "1.IH" [OF this] \<open>r < m\<close> show "\<exists>n. pg n \<noteq> Returns False"
        by simp
    qed
  next
    case False
    then show ?thesis by blast
  qed
qed

lemma retry_loop_never_pong:
  "r < m \<Longrightarrow> retry_loop never_pong m d a r s = None"
proof (rule ccontr)
  assume "r < m" and "retry_loop never_pong m d a r s \<noteq> None"
  then obtain y where "retry_loop never_pong m d a r s = Some y" by auto
  from retry_loop_Some_pong [OF this] \<open>r < m\<close> show False
    by (simp add: never_pong_def)
qed

text \<open>
  When every call of \<^verbatim>\<open>ping\<close> returns true or raises, the loop returns after at most
  \<open>max_retries - retries\<close> further calls, and every delay it adds is \<open>delay\<close>.
\<close>

lemma retry_loop_bounded:
  assumes "\<forall>n. pg n \<noteq> Returns False"
  shows "\<exists>res n sl. retry_loop pg m d a r s = Some (res, n, sl)
           \<and> n \<le> a + (m - r) \<and> length sl \<le> length s + (m - Suc r) \<and> set sl \<subseteq> set s \<union> {d}"
proof (induction "m - r" arbitrary: r a s)
  case 0
  then show ?case by (subst retry_loop.simps) auto
next
  case (Suc k)
  then have lt: "r < m" by simp
  show ?case
  proof (cases "pg a")
    case (Returns ok)
    with assms have "ok" by (cases ok) auto
    with Returns lt show ?thesis by (subst retry_loop.simps) auto
  next
    case (Raises e)
    show ?thesis
    proof (cases "is_ConnectionError e")
      case False
      with Raises lt show ?thesis by (subst retry_loop.simps) auto
    next
      case True
      from Suc.hyps(2) have "k = m - Suc r" by simp
      from Suc.hyps(1) [OF this, of "Suc a" "if Suc r < m then s @ [d] else s"]
      obtain res n sl where
        "retry_loop pg m d (Suc a) (Suc r) (if Suc r < m then s @ [d] else s) = Some (res, n, sl)"
        "n \<le> Suc a + (m - Suc r)"
        "length sl \<le> length (if Suc r < m then s @ [d] else s) + (m - Suc (Suc r))"
        "set sl \<subseteq> set (if Suc r < m then s @ [d] else s) \<union> {d}"
        by blast
      with Raises True lt show ?thesis
        by (subst retry_loop.simps) (auto split: if_splits)
    qed
  qed
qed

lemma get_redis_with_retry_bounded:
  assumes "\<forall>n. pg n \<noteq> Returns False"
  shows "\<exists>res n sl. get_redis_with_retry pg 3 1 = Some (res, n, sl)
           \<and> n \<le> 3 \<and> length sl \<le> 2 \<and> set sl \<subseteq> {1}"
proof -
  from retry_loop_bounded [OF assms, of 3 1 0 0 "[]"]
  obtain res n sl where
    "retry_loop pg 3 1 0 0 [] = Some (res, n, sl)"
    "n \<le> 0 + (3 - 0)" "length sl \<le> length ([] :: nat list) + (3 - Suc 0)"
    "set sl \<subseteq> set [] \<union> {1}"
    by blast
  then show ?thesis
    unfolding get_redis_with_retry_def by auto
qed



text \<open>
  C6. The claim: for every sequence of connection outcomes the connection routine
  terminates after at most 3 attempts. The code at the sequence in which every
  \<^verbatim>\<open>ping\<close> returns a false value without raising: \<^verbatim>\<open>get_redis_with_retry\<close> with its
  defaults never returns, and neither does \<^verbatim>\<open>get_redis\<close>, so no 500 response is made.
\<close>

theorem get_redis_never_returns_on_false_ping:
  "get_redis_with_retry never_pong 3 1 = None \<and> get_redis never_pong = None"
  by (simp add: get_redis_def get_redis_with_retry_def retry_loop_never_pong)


section \<open>Evaluating the model\<close>

lemmas string_eval = strip_def lower_def lower_char_def isspace_def str_int_def digits.simps

lemmas redis_eval = hexists_def hset_def incr_def hgetall_def scan_iter_def

lemmas example_eval =
  example_config_def example_EmailStr_validate_def example_checkpw_def securepassword_hash_def
  validate_email_def

lemma get_redis_store_up: "get_redis store_up = Some (Inr ())"
  by (simp add: get_redis_def get_redis_with_retry_def retry_loop.simps store_up_def)



lemma strip_lower_example: "strip (lower '' A@B.com '') = ''a@b.com''"
  by (simp add: string_eval)

lemma replace_example:
  "replace ''{{Student_name}}'' ''Ann'' ''Hello {{Student_name}}'' = ''Hello Ann''"
  by (simp add: replace.simps)

section \<open>Registration\<close>

lemma register_ann:
  "register_user example_config ''Ann'' ''a@b.com'' [] =
     (RedirectResponse ''/success'' 303, ann_db)"
  by (simp add: register_user_def example_eval redis_eval string_eval ann_db_def)

text \<open>
  The check for an address that is already registered looks the submitted text up as it
  is: the same text a second time is turned away and the store stays as it was.
\<close>

lemma register_user_same_text_rejected:
  assumes "validate_email cfg email = Inr True"
    and "hexists db ''users:emails'' email = Inr True"
  shows "register_user cfg name email db =
           (TemplateResponse ''register.html'' [(''error'', ''Email already registered'')] 400, db)"
  using assms by (simp add: register_user_def)

lemma register_ann_again:
  "register_user example_config ''Bo'' ''a@b.com'' ann_db =
     (TemplateResponse ''register.html'' [(''error'', ''Email already registered'')] 400, ann_db)"
  by (rule register_user_same_text_rejected)
     (simp_all add: example_eval hexists_def ann_db_def)

text \<open>
  The page for an address of the wrong form is given only when the library call raises
  \<^verbatim>\<open>ValidationError\<close>; an exception of another class leaves the handler.
\<close>

lemma register_user_ValidationError:
  "EmailStr_validate cfg email = Inl (ValidationError m) \<Longrightarrow>
   register_user cfg name email db =
     (TemplateResponse ''register.html'' [(''error'', ''Invalid email format'')] 400, db)"
  by (simp add: register_user_def validate_email_def)

lemma register_user_ValueError:
  "EmailStr_validate cfg email = Inl (ValueError m) \<Longrightarrow>
   register_user cfg name email db = (Raised (ValueError m), db)"
  by (simp add: register_user_def validate_email_def)

text \<open>
  C1. The claim: after any sequence of registrations no two stored user records have the
  same normalised address, and the index \<^verbatim>\<open>users:emails\<close> agrees with the records.
  The code on the requests (Ann, \<^verbatim>\<open>a@b.com\<close>) and (Bo, \<^verbatim>\<open>A@B.com\<close>), from an
  empty store: both are accepted, \<^verbatim>\<open>user:1\<close> and \<^verbatim>\<open>user:2\<close> both hold the address
  \<^verbatim>\<open>a@b.com\<close>, and the index has one entry for it, which names user 2 only.
\<close>

theorem two_records_share_normalized_email:
  "w_db (run example_config empty_world
           [(env_up, Register_user (Some ''Ann'') (Some ''a@b.com'')),
            (env_up, Register_user (Some ''Bo'') (Some ''A@B.com''))]) =
     [(''users:count'', RInt 2),
      (''user:1'', RHash [(''name'', ''Ann''), (''email'', ''a@b.com''), (''id'', ''1'')]),
      (''users:emails'', RHash [(''a@b.com'', ''2'')]),
      (''user:2'', RHash [(''name'', ''Bo''), (''email'', ''a@b.com''), (''id'', ''2'')])]"
  by (simp add: run_def after_def Depends_get_redis_def get_redis_store_up env_up_def
        empty_world_def Form_def register_user_def example_eval redis_eval string_eval)

text \<open>
  C2. The claim: a second registration of a registered address in another casing is
  rejected with status 400 and changes nothing. The code on (Bo, \<^verbatim>\<open>A@B.com\<close>) in the
  store where \<^verbatim>\<open>a@b.com\<close> is registered for Ann: the answer is the redirect to
  \<^verbatim>\<open>/success\<close> with status 303, a record \<^verbatim>\<open>user:2\<close> is made, and the index entry of
  \<^verbatim>\<open>a@b.com\<close> is changed from 1 to 2.
\<close>

theorem case_variant_registered_again:
  "register_user example_config ''Bo'' ''A@B.com'' ann_db =
     (RedirectResponse ''/success'' 303,
      [(''users:count'', RInt 2),
       (''user:1'', RHash [(''name'', ''Ann''), (''email'', ''a@b.com''), (''id'', ''1'')]),
       (''users:emails'', RHash [(''a@b.com'', ''2'')]),
       (''user:2'', RHash [(''name'', ''Bo''), (''email'', ''a@b.com''), (''id'', ''2'')])])"
  by (simp add: register_user_def example_eval redis_eval string_eval ann_db_def)

text \<open>
  C8. A registration that succeeds has stored, under the key made from the identifier
  that \<^verbatim>\<open>INCR\<close> allocated, the trimmed name, the lower-cased and trimmed address and
  the decimal text of the identifier; \<^verbatim>\<open>hgetall\<close> on that key reads the three back.
\<close>

theorem register_user_round_trip:
  assumes "register_user cfg name email db = (RedirectResponse ''/success'' 303, db')"
  shows "\<exists>user_id db1 user.
           incr db ''users:count'' = Inr (user_id, db1) \<and>
           hgetall db' (''user:'' @ str_int user_id) = Inr user \<and>
           dict_get user ''name'' = Some (strip name) \<and>
           dict_get user ''email'' = Some (strip (lower email)) \<and>
           dict_get user ''id'' = Some (str_int user_id)"
  using assms
  by (auto simp: register_user_def hset_def hgetall_def dict_get_def Let_def update_conv'
           split: if_splits sum.splits bool.splits option.splits rval.splits prod.splits)

theorem register_user_round_trip_witness:
  "register_user example_config ''  Ann '' '' A@B.com '' [] =
     (RedirectResponse ''/success'' 303, ann_db) \<and>
   (\<exists>user.
      incr [] ''users:count'' = Inr (1, [(''users:count'', RInt 1)]) \<and>
      hgetall ann_db ''user:1'' = Inr user \<and>
      dict_get user ''name'' = Some ''Ann'' \<and>
      dict_get user ''email'' = Some ''a@b.com'' \<and>
      dict_get user ''id'' = Some ''1'')"
proof -
  have h: "register_user example_config ''  Ann '' '' A@B.com '' [] =
             (RedirectResponse ''/success'' 303, ann_db)"
    by (simp add: register_user_def example_eval redis_eval string_eval ann_db_def)
  from register_user_round_trip [OF h] h show ?thesis
    by (simp add: incr_def string_eval)
qed

section \<open>Mail and broadcast\<close>

lemma EmailMessage_unbound: "''EmailMessage'' \<notin> set module_globals"
  by (simp add: module_globals_def)

text \<open>
  What the \<^verbatim>\<open>with\<close> block of \<^verbatim>\<open>send_email\<close> asks of a server that accepts every
  command: one connection, upgraded, authenticated, one message, closed.
\<close>

lemma with_SMTP_accepting:
  "with_SMTP smtp_ok host port [Starttls, Login user pw, Send_message msg] =
     (Inr (), [Connect host port, Starttls, Login user pw, Send_message msg, Quit])"
  by (simp add: with_SMTP_def smtp_ok_def)

text \<open>
  C4. The claim: for every address, subject and body the dispatcher opens one SMTP
  session, upgrades it, logs in, sends one message and closes the session. The code:
  \<^verbatim>\<open>main.py\<close> never imports \<^verbatim>\<open>EmailMessage\<close>, so the first statement of
  \<^verbatim>\<open>send_email\<close> raises \<^verbatim>\<open>NameError\<close> for every address, subject and body, before
  any SMTP command is issued.
\<close>

theorem send_email_raises_NameError:
  "send_email cfg srv to subject body = (Inl (NameError ''EmailMessage''), [])"
  by (simp add: send_email_def EmailMessage_unbound)

text \<open>
  C3. The claim: with the users Ann and Bo and the template
  \<^verbatim>\<open>Hello {{Student_name}}\<close> a broadcast sends two mails, \<^verbatim>\<open>Hello Ann\<close> and
  \<^verbatim>\<open>Hello Bo\<close>. The code there, for a logged-in administrator and a mail server that
  accepts everything: the scan finds the two records, and the first call of
  \<^verbatim>\<open>send_email\<close> raises \<^verbatim>\<open>NameError\<close>, which the handler does not catch; no SMTP
  command is issued.
\<close>

theorem broadcast_to_ann_and_bo_sends_nothing:
  "scan_iter ann_bo_db ''user:'' = [''user:1'', ''user:2''] \<and>
   collect_users ann_bo_db (scan_iter ann_bo_db ''user:'') =
     Inr [(Some ''Ann'', Some ''ann@example.com''), (Some ''Bo'', Some ''bo@example.com'')] \<and>
   broadcast_message example_config smtp_ok admin_session ''Hello {{Student_name}}'' ann_bo_db =
     (Raised (NameError ''EmailMessage''), [])"
  by (simp add: broadcast_message_def admin_session_def truthy_def ann_bo_db_def scan_iter_def
        hgetall_def dict_get_def send_email_def EmailMessage_unbound)

lemma register_ann_and_bo:
  "w_db (run example_config empty_world
           [(env_up, Register_user (Some ''Ann'') (Some ''ann@example.com'')),
            (env_up, Register_user (Some ''Bo'') (Some ''bo@example.com''))]) = ann_bo_db"
  by (simp add: run_def after_def Depends_get_redis_def get_redis_store_up env_up_def
        empty_world_def Form_def register_user_def example_eval redis_eval string_eval
        ann_bo_db_def)

section \<open>Administrator login\<close>




section \<open>The log page\<close>

text \<open>
  C10, the claim as stated: when the log file exists its text is returned, and no error
  other than the 404 escapes. For a log file that exists and may not be read, opening it
  raises \<^verbatim>\<open>PermissionError\<close>; the handler catches \<^verbatim>\<open>FileNotFoundError\<close> only, so
  the exception leaves it and the answer has status 500.
\<close>

theorem view_logs_unreadable_file_raises:
  "handle example_config logged_in_world (env_unreadable, View_logs) =
     Some (Raised PermissionError, logged_in_world) \<and>
   status_code (Raised PermissionError) = 500"
  by (simp add: view_logs_def logged_in_world_def admin_session_def truthy_def
        env_unreadable_def)

text \<open>
  C10, amended. For a request to \<^verbatim>\<open>/logs\<close> in a session whose flag is set: when the
  log file is opened and read, its whole text is in the rendered page; when opening it
  raises \<^verbatim>\<open>FileNotFoundError\<close>, the answer is the \<open>HTTPException\<close> with status 404;
  when opening or reading it raises anything else, that exception leaves the handler.
  The state is not changed.
\<close>

theorem view_logs_authenticated:
  assumes "truthy (w_session w ''admin_logged_in'')"
  shows "(logs_file e = Inr text \<longrightarrow>
            handle cfg w (e, View_logs) =
              Some (TemplateResponse ''logs.html'' [(''logs'', text)] 200, w)) \<and>
         (logs_file e = Inl FileNotFoundError \<longrightarrow>
            handle cfg w (e, View_logs) =
              Some (Raised (HTTPException 404 ''Logs not available''), w) \<and>
            status_code (Raised (HTTPException 404 ''Logs not available'')) = 404) \<and>
         (logs_file e = Inl exc \<and> exc \<noteq> FileNotFoundError \<longrightarrow>
            handle cfg w (e, View_logs) = Some (Raised exc, w))"
  using assms by (cases exc) (simp_all add: view_logs_def)

theorem view_logs_authenticated_witness:
  "truthy (w_session logged_in_world ''admin_logged_in'') \<and>
   logs_file env_up = Inr ''INFO - Admin logged in'' \<and>
   handle example_config logged_in_world (env_up, View_logs) =
     Some (TemplateResponse ''logs.html'' [(''logs'', ''INFO - Admin logged in'')] 200,
           logged_in_world) \<and>
   logs_file env_down = Inl FileNotFoundError \<and>
   handle example_config logged_in_world (env_down, View_logs) =
     Some (Raised (HTTPException 404 ''Logs not available''), logged_in_world) \<and>
   logs_file env_unreadable = Inl PermissionError \<and> PermissionError \<noteq> FileNotFoundError \<and>
   handle example_config logged_in_world (env_unreadable, View_logs) =
     Some (Raised PermissionError, logged_in_world)"
proof -
  have h: "truthy (w_session logged_in_world ''admin_logged_in'')"
    by (simp add: truthy_def admin_session_def logged_in_world_def)
  have up: "logs_file env_up = Inr ''INFO - Admin logged in''"
    by (simp add: env_up_def)
  have down: "logs_file env_down = Inl FileNotFoundError"
    by (simp add: env_down_def)
  have unreadable: "logs_file env_unreadable = Inl PermissionError"
    by (simp add: env_unreadable_def)
  from h up down unreadable
    view_logs_authenticated [OF h, of env_up "''INFO - Admin logged in''" example_config
                               PermissionError]
    view_logs_authenticated [OF h, of env_down "''x''" example_config PermissionError]
    view_logs_authenticated [OF h, of env_unreadable "''x''" example_config PermissionError]
  show ?thesis by simp
qed

section \<open>The session flag\<close>

text \<open>
  The state after a route with the store dependency is the state its body leaves, or the
  state before.
\<close>

lemma Depends_get_redis_world:
  assumes "Depends_get_redis e w body = Some (resp, w')"
  shows "w' = snd body \<or> w' = w"
  using assms
  by (auto simp: Depends_get_redis_def split: option.splits sum.splits prod.splits response.splits)

text \<open>
  A request that is not a login passing \<^verbatim>\<open>verify_admin\<close> leaves the session as it
  was or empties it.
\<close>

lemma admin_login_session:
  "verify_admin cfg u p db \<noteq> Inr True \<Longrightarrow> snd (admin_login cfg sess u p db) = sess"
  by (auto simp: admin_login_def split: sum.splits bool.splits)

lemma after_session:
  assumes "\<not> verified_login cfg w er"
  shows "w_session (after cfg w er) = w_session w \<or> w_session (after cfg w er) = Map.empty"
proof (cases er)
  case (Pair e r)
  show ?thesis
  proof (cases "handle cfg w er")
    case None
    then show ?thesis by (simp add: after_def)
  next
    case (Some rw)
    obtain resp w' where rw: "rw = (resp, w')" by (cases rw)
    with Some have aft: "after cfg w er = w'" by (simp add: after_def)
    show ?thesis
    proof (cases r)
      case (Admin_login username password)
      let ?body = "case (Form username, Form password) of
          (Some u, Some p) \<Rightarrow>
            (case admin_login cfg (w_session w) u p (w_db w) of
               (resp, sess') \<Rightarrow> (resp, w\<lparr>w_session := sess'\<rparr>))
        | _ \<Rightarrow> (field_required, w)"
      from Some rw Pair Admin_login
      have dep: "Depends_get_redis e w ?body = Some (resp, w')" by simp
      then have conn: "\<exists>c. get_redis (ping e) = Some (Inr c)" if "w' \<noteq> w"
        using that by (auto simp: Depends_get_redis_def split: option.splits sum.splits)
      from Depends_get_redis_world [OF dep] have "w' = snd ?body \<or> w' = w" .
      then show ?thesis
      proof
        assume "w' = w"
        with aft show ?thesis by simp
      next
        assume w': "w' = snd ?body"
        show ?thesis
        proof (cases "w' = w")
          case True
          with aft show ?thesis by simp
        next
          case False
          with conn obtain c where c: "get_redis (ping e) = Some (Inr c)" by blast
          from False w' obtain u p where up: "Form username = Some u" "Form password = Some p"
            by (auto split: option.splits)
          with c assms Pair Admin_login have "verify_admin cfg u p (w_db w) \<noteq> Inr True"
            by simp
          from admin_login_session [OF this, of "w_session w"] up w'
          have "w_session w' = w_session w"
            by (simp split: prod.splits)
          with aft show ?thesis by simp
        qed
      qed
    next
      case Admin_logout
      with Pair show ?thesis by (simp add: after_def admin_logout_def)
    next
      case (Register_user name email)
      with Some rw Pair have "Depends_get_redis e w
         (case (Form name, Form email) of
            (Some n, Some m) \<Rightarrow>
              (case register_user cfg n m (w_db w) of
                 (resp, db') \<Rightarrow> (resp, w\<lparr>w_db := db'\<rparr>))
          | _ \<Rightarrow> (field_required, w)) = Some (resp, w')" by simp
      from Depends_get_redis_world [OF this] have "w_session w' = w_session w"
        by (auto split: option.splits prod.splits)
      with aft show ?thesis by simp
    next
      case (Broadcast_message message)
      with Some rw Pair have "Depends_get_redis e w
         (case Form message of
            Some m \<Rightarrow>
              (case broadcast_message cfg (smtp e) (w_session w) m (w_db w) of
                 (resp, tr) \<Rightarrow> (resp, w\<lparr>w_smtp := w_smtp w @ tr\<rparr>))
          | None \<Rightarrow> (field_required, w)) = Some (resp, w')" by simp
      from Depends_get_redis_world [OF this] have "w_session w' = w_session w"
        by (auto split: option.splits prod.splits)
      with aft show ?thesis by simp
    qed (use Pair in \<open>simp_all add: after_def\<close>)
  qed
qed

lemma after_not_logged_in:
  assumes "\<not> truthy (w_session w ''admin_logged_in'')" and "\<not> verified_login cfg w er"
  shows "\<not> truthy (w_session (after cfg w er) ''admin_logged_in'')"
  using after_session [OF assms(2)] assms(1) by (auto simp: truthy_def)

lemma run_not_logged_in:
  assumes "\<not> truthy (w_session w ''admin_logged_in'')" and "no_verified_login cfg w ers"
  shows "\<not> truthy (w_session (run cfg w ers) ''admin_logged_in'')"
  using assms
proof (induction ers arbitrary: w)
  case Nil
  then show ?case by (simp add: run_def)
next
  case (Cons er ers)
  from Cons.prems have "\<not> truthy (w_session (after cfg w er) ''admin_logged_in'')"
    by (simp add: after_not_logged_in)
  moreover from Cons.prems have "no_verified_login cfg (after cfg w er) ers"
    by simp
  ultimately have "\<not> truthy (w_session (run cfg (after cfg w er) ers) ''admin_logged_in'')"
    by (rule Cons.IH)
  then show ?case by (simp add: run_def)
qed


lemma after_logout_db: "w_db (after cfg w (e, Admin_logout)) = w_db w"
  by (simp add: after_def admin_logout_def)


lemma verify_admin_guess:
  "verify_admin example_config ''admin'' ''guess'' admin_db = Inr False"
  by (simp add: verify_admin_def admin_db_def hgetall_def dict_get_default_def
        example_config_def example_checkpw_def securepassword_hash_def)

lemma verify_admin_securepassword:
  "verify_admin example_config ''admin'' ''securepassword'' admin_db = Inr True"
  by (simp add: verify_admin_def admin_db_def hgetall_def dict_get_default_def
        example_config_def example_checkpw_def securepassword_hash_def)

text \<open>A login that passes does set the flag, and the panel is then shown.\<close>

lemma verified_login_sets_flag:
  "after example_config admin_world (env_up, Admin_login (Some ''admin'') (Some ''securepassword''))
     = logged_in_world"
  by (simp add: after_def Depends_get_redis_def env_up_def get_redis_store_up Form_def
        admin_login_def admin_world_def verify_admin_securepassword admin_session_def
        logged_in_world_def)

lemma admin_panel_shown: "admin_panel admin_session = TemplateResponse ''admin.html'' [] 200"
  by (simp add: admin_panel_def admin_session_def truthy_def)


text \<open>
  C9. A request other than a login whose credentials pass \<^verbatim>\<open>verify_admin\<close> leaves
  the session unchanged or clears it; so from a session without the flag, a sequence of
  requests with no such login ends in a session without the flag.
\<close>

theorem session_flag_needs_verified_login:
  "(\<not> verified_login cfg w er \<longrightarrow>
      w_session (after cfg w er) = w_session w \<or> w_session (after cfg w er) = Map.empty) \<and>
   (\<not> truthy (w_session w ''admin_logged_in'') \<and> no_verified_login cfg w ers \<longrightarrow>
      \<not> truthy (w_session (run cfg w ers) ''admin_logged_in''))"
  using after_session run_not_logged_in by blast

theorem session_flag_needs_verified_login_witness:
  "\<not> verified_login example_config admin_world
       (env_up, Admin_login (Some ''admin'') (Some ''guess'')) \<and>
   (w_session (after example_config admin_world
                 (env_up, Admin_login (Some ''admin'') (Some ''guess'')))
      = w_session admin_world \<or>
    w_session (after example_config admin_world
                 (env_up, Admin_login (Some ''admin'') (Some ''guess'')))
      = Map.empty) \<and>
   \<not> truthy (w_session admin_world ''admin_logged_in'') \<and>
   no_verified_login example_config admin_world
     [(env_up, Admin_panel), (env_down, Broadcast_message (Some ''Hello'')),
      (env_up, View_logs)] \<and>
   \<not> truthy (w_session (run example_config admin_world
                 [(env_up, Admin_panel), (env_down, Broadcast_message (Some ''Hello'')),
                  (env_up, View_logs)]) ''admin_logged_in'')"
proof -
  have a: "\<not> verified_login example_config admin_world
               (env_up, Admin_login (Some ''admin'') (Some ''guess''))"
    by (simp add: env_up_def get_redis_store_up Form_def admin_world_def verify_admin_guess)
  have b: "\<not> truthy (w_session admin_world ''admin_logged_in'')"
    by (simp add: admin_world_def truthy_def)
  have c: "no_verified_login example_config admin_world
             [(env_up, Admin_panel), (env_down, Broadcast_message (Some ''Hello'')),
              (env_up, View_logs)]"
    by simp
  from a b c
    session_flag_needs_verified_login
      [of example_config admin_world "(env_up, Admin_login (Some ''admin'') (Some ''guess''))"
          "[(env_up, Admin_panel), (env_down, Broadcast_message (Some ''Hello'')),
            (env_up, View_logs)]"]
  show ?thesis by blast
qed




end
